theory Spec2Isabelle
  imports Main "HOL-Library.Word" "HOL-Library.Signed_Division"
begin

section \<open>C strings and the case-insensitive comparison\<close>

text \<open>
  A \<^verbatim>\<open>const char *\<close> that points to a string is a \<^typ>\<open>string\<close>: the bytes before the
  terminating NUL. Reading the string at its end yields the terminator, and nothing
  behind a NUL byte is ever read. A pointer that may be \<^verbatim>\<open>NULL\<close> is a
  \<^typ>\<open>string option\<close>.
\<close>

definition byte_at :: "string \<Rightarrow> int" where
  "byte_at s = (case s of [] \<Rightarrow> 0 | c # _ \<Rightarrow> of_char c)"

definition tolower_c :: "int \<Rightarrow> int" where
  "tolower_c c = (if 65 \<le> c \<and> c \<le> 90 then c + 32 else c)"

definition strlen :: "string \<Rightarrow> nat" where
  "strlen s = length (takeWhile (\<lambda>c. of_char c \<noteq> (0::int)) s)"

text \<open>
  \<^verbatim>\<open>strncasecmp(s1, s2, n)\<close> of the C library: at most \<open>n\<close> positions are compared after
  \<^verbatim>\<open>tolower\<close>; the comparison stops at the first difference or at the terminator.
\<close>

fun strncasecmp :: "string \<Rightarrow> string \<Rightarrow> nat \<Rightarrow> int" where
  "strncasecmp s1 s2 0 = 0"
| "strncasecmp s1 s2 (Suc n) =
     (let c1 = tolower_c (byte_at s1); c2 = tolower_c (byte_at s2); d = c1 - c2
      in if d \<noteq> 0 \<or> c2 = 0 then d else strncasecmp (tl s1) (tl s2) n)"

section \<open>The emotion table\<close>

text \<open>
  Modelled from the spec: the macros \<^verbatim>\<open>DISP_EMOTE_NEUTRAL\<close> ... \<^verbatim>\<open>DISP_EMOTE_IDLE\<close> are
  declared in \<^verbatim>\<open>app_display.h\<close>, which is not among the sources; the specification names
  the fixed set as neutral, happy, sad, crying, angry, sleepy, confused, shocked, winking,
  idle, in the order of the table \<^verbatim>\<open>valid_emotions\<close>.
\<close>

definition DISP_EMOTE_NEUTRAL :: string where "DISP_EMOTE_NEUTRAL = ''neutral''"
definition DISP_EMOTE_HAPPY :: string where "DISP_EMOTE_HAPPY = ''happy''"
definition DISP_EMOTE_SAD :: string where "DISP_EMOTE_SAD = ''sad''"
definition DISP_EMOTE_CRYING :: string where "DISP_EMOTE_CRYING = ''crying''"
definition DISP_EMOTE_ANGRY :: string where "DISP_EMOTE_ANGRY = ''angry''"
definition DISP_EMOTE_SLEEPY :: string where "DISP_EMOTE_SLEEPY = ''sleepy''"
definition DISP_EMOTE_CONFUSED :: string where "DISP_EMOTE_CONFUSED = ''confused''"
definition DISP_EMOTE_SHOCKED :: string where "DISP_EMOTE_SHOCKED = ''shocked''"
definition DISP_EMOTE_WINKING :: string where "DISP_EMOTE_WINKING = ''winking''"
definition DISP_EMOTE_IDLE :: string where "DISP_EMOTE_IDLE = ''idle''"

lemmas DISP_EMOTE_defs =
  DISP_EMOTE_NEUTRAL_def DISP_EMOTE_HAPPY_def DISP_EMOTE_SAD_def DISP_EMOTE_CRYING_def
  DISP_EMOTE_ANGRY_def DISP_EMOTE_SLEEPY_def DISP_EMOTE_CONFUSED_def DISP_EMOTE_SHOCKED_def
  DISP_EMOTE_WINKING_def DISP_EMOTE_IDLE_def

definition valid_emotions :: "string list" where
  "valid_emotions =
     [DISP_EMOTE_NEUTRAL, DISP_EMOTE_HAPPY, DISP_EMOTE_SAD, DISP_EMOTE_CRYING,
      DISP_EMOTE_ANGRY, DISP_EMOTE_SLEEPY, DISP_EMOTE_CONFUSED, DISP_EMOTE_SHOCKED,
      DISP_EMOTE_WINKING, DISP_EMOTE_IDLE]"

text \<open>The test both loops over \<^verbatim>\<open>valid_emotions\<close> apply to one candidate.\<close>

definition emotion_matches :: "string \<Rightarrow> string \<Rightarrow> bool" where
  "emotion_matches emotion candidate = (strncasecmp emotion candidate (strlen candidate) = 0)"

text \<open>
  \<^verbatim>\<open>app_display_is_emotion_valid\<close>: the loop over the table, as a recursion over the
  candidates still to be tried. The function reads and writes no global.
\<close>

fun is_emotion_valid_from :: "string \<Rightarrow> string list \<Rightarrow> bool" where
  "is_emotion_valid_from emotion [] = False"
| "is_emotion_valid_from emotion (c # cs) =
     (if emotion_matches emotion c then True else is_emotion_valid_from emotion cs)"

definition app_display_is_emotion_valid :: "string \<Rightarrow> bool" where
  "app_display_is_emotion_valid emotion = is_emotion_valid_from emotion valid_emotions"

text \<open>
  The matching rule in the specification's words, for comparison with the code: the input
  is at least as long as the candidate and begins with it, ignoring the case of letters.
\<close>

definition lower_char :: "char \<Rightarrow> int" where
  "lower_char c = tolower_c (of_char c)"

definition spec_prefix_match :: "string \<Rightarrow> string \<Rightarrow> bool" where
  "spec_prefix_match input candidate =
     (length candidate \<le> length input \<and>
      map lower_char (take (length candidate) input) = map lower_char candidate)"

section \<open>Types of the display controller\<close>

text \<open>
  \<^verbatim>\<open>esp_err_t\<close> is an \<^verbatim>\<open>int\<close>; the codes named here have the values of
  \<^verbatim>\<open>esp_err.h\<close>. Any other value may come back from a collaborator.
\<close>

type_synonym esp_err_t = int

definition ESP_OK :: esp_err_t where "ESP_OK = 0"
definition ESP_ERR_INVALID_ARG :: esp_err_t where "ESP_ERR_INVALID_ARG = 0x102"
definition ESP_ERR_INVALID_STATE :: esp_err_t where "ESP_ERR_INVALID_STATE = 0x103"
definition ESP_ERR_NOT_FOUND :: esp_err_t where "ESP_ERR_NOT_FOUND = 0x105"

lemmas ESP_ERR_defs = ESP_OK_def ESP_ERR_INVALID_ARG_def ESP_ERR_INVALID_STATE_def ESP_ERR_NOT_FOUND_def

text \<open>An opaque handle or object pointer; \<open>None\<close> is \<^verbatim>\<open>NULL\<close>.\<close>

type_synonym handle = "nat option"

text \<open>
  The enumerations of \<^verbatim>\<open>app_device.h\<close>, by the enumerators the controller's
  \<^verbatim>\<open>switch\<close> statements name; every other value of the C type takes the
  \<^verbatim>\<open>default\<close> branch and is kept with its number.
\<close>

datatype app_device_text_type_t =
    APP_DEVICE_TEXT_TYPE_USER
  | APP_DEVICE_TEXT_TYPE_ASSISTANT
  | APP_DEVICE_TEXT_TYPE_SYSTEM
  | APP_DEVICE_TEXT_TYPE_other int

datatype app_device_system_state_t =
    APP_DEVICE_SYSTEM_STATE_LISTENING
  | APP_DEVICE_SYSTEM_STATE_SLEEP
  | APP_DEVICE_SYSTEM_STATE_ACTIVE
  | APP_DEVICE_SYSTEM_STATE_other int

datatype emote_mgr_evt = EMOTE_MGR_EVT_SPEAK | EMOTE_MGR_EVT_SYS | EMOTE_MGR_EVT_LISTEN

text \<open>
  Event bases are compared by identity; event ids are \<^verbatim>\<open>int32_t\<close>. The three ids the
  handler names are enumerators of \<^verbatim>\<open>app_network.h\<close> and of the WiFi driver's
  \<^verbatim>\<open>wifi_event_t\<close>, neither among the sources; they stand here with the numbers of
  those headers, and the controller only compares them for equality.
\<close>

datatype esp_event_base_t = APP_NETWORK_EVENT | WIFI_EVENT | OTHER_EVENT_BASE string

definition APP_NETWORK_EVENT_QR_DISPLAY :: int where "APP_NETWORK_EVENT_QR_DISPLAY = 1"
definition WIFI_EVENT_STA_CONNECTED :: int where "WIFI_EVENT_STA_CONNECTED = 4"
definition WIFI_EVENT_STA_DISCONNECTED :: int where "WIFI_EVENT_STA_DISCONNECTED = 5"

lemmas event_id_defs =
  APP_NETWORK_EVENT_QR_DISPLAY_def WIFI_EVENT_STA_CONNECTED_def WIFI_EVENT_STA_DISCONNECTED_def

record app_display_data_t =
  initialized :: bool
  panel_handle :: handle
  io_handle :: handle
  emote_handle :: handle
  touch_handle :: handle
  gfx_handle :: handle
  h_res :: "32 word"
  v_res :: "32 word"

section \<open>The collaborators\<close>

text \<open>
  Every call the controller makes on the animation engine, the panel, the graphics
  library, the LEDC driver, the scheduler and the press debouncer that has an effect there
  is recorded, with its arguments, in the order the code makes it.
\<close>

datatype call =
    Emote_init "32 word" "32 word" "32 word"
  | Emote_deinit handle
  | Emote_load_assets_from_source handle
  | Emote_set_event_msg handle emote_mgr_evt "string option"
  | Emote_set_anim_emoji handle string
  | Emote_set_qrcode_data handle "string option"
  | Gfx_obj_set_visible handle bool
  | Gfx_obj_align handle int int
  | Gfx_label_set_long_mode handle
  | Gfx_label_set_scroll_step handle int
  | Gfx_label_set_scroll_speed handle int
  | Gfx_touch_configure handle handle nat
  | Esp_lcd_panel_draw_bitmap handle int int "32 word" "32 word"
  | Esp_lcd_panel_disp_on_off handle bool
  | Esp_lcd_panel_swap_xy handle bool
  | Esp_lcd_panel_mirror handle bool bool
  | Esp_lcd_panel_io_register_event_callbacks handle handle
  | Ledc_set_duty nat nat "32 word"
  | Ledc_update_duty nat nat
  | VTaskDelay_ms nat
  | App_touch_press_init

text \<open>
  What the board layer, the drivers and the engine answer, and the two compile-time
  switches of \<^verbatim>\<open>board_defs.h\<close>. A lookup is its return code with the value it stores
  through the out-pointer; the value is looked at only when the code is \<^verbatim>\<open>ESP_OK\<close>.
\<close>

record dev_display_lcd_handles_t =
  dev_panel_handle :: handle
  dev_io_handle :: handle

record dev_display_lcd_config_t =
  lcd_width :: "32 word"
  lcd_height :: "32 word"

record periph_ledc_handle_t =
  speed_mode :: nat
  channel :: nat

record platform =
  LEDC_BACKLIGHT_SUPPORTED :: bool
  LCD_MIRROR_X_Y :: bool
  get_handle_display_lcd :: "esp_err_t \<times> dev_display_lcd_handles_t"
  get_config_display_lcd :: "esp_err_t \<times> dev_display_lcd_config_t"
  get_handle_lcd_touch :: "esp_err_t \<times> handle"
  get_handle_lcd_brightness :: "esp_err_t \<times> periph_ledc_handle_t"
  get_config_lcd_brightness :: esp_err_t
  get_periph_config_ledc :: "esp_err_t \<times> nat"
  ledc_set_duty_ret :: esp_err_t
  ledc_update_duty_ret :: esp_err_t
  heap_caps_calloc_ok :: bool
  esp_lcd_panel_disp_on_off_ret :: esp_err_t
  emote_init_ret :: handle
  emote_is_initialized_ret :: bool
  gfx_emote_handle :: handle
  emote_get_obj_by_name :: "string \<Rightarrow> handle"
  gfx_obj_get_pos_y :: int
  emote_set_event_msg_ret :: esp_err_t

text \<open>
  The whole state: the global \<^verbatim>\<open>s_display_data\<close>, the events
  \<^verbatim>\<open>display_event_handler\<close> is registered for on the event loop, and the calls made so
  far. Log output is not part of it.
\<close>

record world =
  s_display_data :: app_display_data_t
  handlers :: "(esp_event_base_t \<times> int) list"
  calls :: "call list"

definition do_call :: "call \<Rightarrow> world \<Rightarrow> world" where
  "do_call c w = w\<lparr>calls := calls w @ [c]\<rparr>"

text \<open>
  The event loop keeps one registration of a handler per event: registering adds the
  event, unregistering removes it, and a posted event runs the handler when the event is
  registered.
\<close>

definition esp_event_handler_register :: "esp_event_base_t \<Rightarrow> int \<Rightarrow> world \<Rightarrow> world" where
  "esp_event_handler_register base eid w = w\<lparr>handlers := List.insert (base, eid) (handlers w)\<rparr>"

definition esp_event_handler_unregister :: "esp_event_base_t \<Rightarrow> int \<Rightarrow> world \<Rightarrow> world" where
  "esp_event_handler_unregister base eid w = w\<lparr>handlers := removeAll (base, eid) (handlers w)\<rparr>"

section \<open>The public operations\<close>

text \<open>
  Each operation takes the world and returns its \<^verbatim>\<open>esp_err_t\<close> with the world it
  leaves. The unused \<^verbatim>\<open>void *arg\<close> of \<^verbatim>\<open>app_display_set_text\<close> and
  \<^verbatim>\<open>app_display_system_state_changed\<close> is left out. A text may be \<^verbatim>\<open>NULL\<close>; an
  emotion name is a string, since \<^verbatim>\<open>strncasecmp\<close> reads through the pointer.
\<close>

definition app_display_set_text ::
    "app_device_text_type_t \<Rightarrow> string option \<Rightarrow> world \<Rightarrow> esp_err_t \<times> world" where
  "app_display_set_text text_type text w =
     (if \<not> initialized (s_display_data w) then (ESP_ERR_INVALID_STATE, w)
      else case text_type of
          APP_DEVICE_TEXT_TYPE_USER \<Rightarrow> (ESP_OK, w)
        | APP_DEVICE_TEXT_TYPE_ASSISTANT \<Rightarrow>
            (case text of
               None \<Rightarrow> (ESP_OK, w)
             | Some t \<Rightarrow>
                 if strlen t > 0
                 then (ESP_OK, do_call (Emote_set_event_msg (emote_handle (s_display_data w))
                                          EMOTE_MGR_EVT_SPEAK text) w)
                 else (ESP_OK, w))
        | APP_DEVICE_TEXT_TYPE_SYSTEM \<Rightarrow>
            (ESP_OK, do_call (Emote_set_event_msg (emote_handle (s_display_data w))
                                EMOTE_MGR_EVT_SYS text) w)
        | APP_DEVICE_TEXT_TYPE_other _ \<Rightarrow> (ESP_ERR_INVALID_ARG, w))"

text \<open>The loop of \<^verbatim>\<open>app_display_set_emotion\<close> over the candidates still to be tried.\<close>

fun set_emotion_from :: "string \<Rightarrow> string list \<Rightarrow> world \<Rightarrow> esp_err_t \<times> world" where
  "set_emotion_from emotion [] w = (ESP_ERR_INVALID_ARG, w)"
| "set_emotion_from emotion (c # cs) w =
     (if emotion_matches emotion c
      then (ESP_OK, do_call (Emote_set_anim_emoji (emote_handle (s_display_data w)) c) w)
      else set_emotion_from emotion cs w)"

definition app_display_set_emotion :: "string \<Rightarrow> world \<Rightarrow> esp_err_t \<times> world" where
  "app_display_set_emotion emotion w =
     (if \<not> initialized (s_display_data w) then (ESP_ERR_INVALID_STATE, w)
      else set_emotion_from emotion valid_emotions w)"

definition app_display_system_state_changed ::
    "platform \<Rightarrow> app_device_system_state_t \<Rightarrow> world \<Rightarrow> esp_err_t \<times> world" where
  "app_display_system_state_changed P new_state w =
     (if \<not> initialized (s_display_data w) then (ESP_ERR_INVALID_STATE, w)
      else case new_state of
          APP_DEVICE_SYSTEM_STATE_LISTENING \<Rightarrow>
            (let (err, w1) = app_display_set_emotion DISP_EMOTE_IDLE w;
                 w2 = do_call (Emote_set_event_msg (emote_handle (s_display_data w1))
                                 EMOTE_MGR_EVT_LISTEN None) w1
             in (emote_set_event_msg_ret P, w2))
        | APP_DEVICE_SYSTEM_STATE_SLEEP \<Rightarrow> app_display_set_emotion DISP_EMOTE_SLEEPY w
        | APP_DEVICE_SYSTEM_STATE_ACTIVE \<Rightarrow> (ESP_OK, w)
        | APP_DEVICE_SYSTEM_STATE_other _ \<Rightarrow> (ESP_ERR_INVALID_ARG, w))"

definition app_display_send_event :: "string option \<Rightarrow> string option \<Rightarrow> world \<Rightarrow> esp_err_t \<times> world" where
  "app_display_send_event event message w =
     (if \<not> initialized (s_display_data w) then (ESP_ERR_INVALID_STATE, w) else (ESP_OK, w))"

section \<open>The event handler\<close>

definition change_emotion_visibility :: "platform \<Rightarrow> handle \<Rightarrow> bool \<Rightarrow> world \<Rightarrow> world" where
  "change_emotion_visibility P h visible w =
     (if h = None then w
      else case emote_get_obj_by_name P ''eye_anim'' of
             None \<Rightarrow> w
           | Some obj \<Rightarrow> do_call (Gfx_obj_set_visible (Some obj) visible) w)"

definition display_event_handler ::
    "platform \<Rightarrow> esp_event_base_t \<Rightarrow> int \<Rightarrow> string option \<Rightarrow> world \<Rightarrow> world" where
  "display_event_handler P event_base event_id event_data w =
     (if event_base = APP_NETWORK_EVENT \<and> event_id = APP_NETWORK_EVENT_QR_DISPLAY then
        let w1 = snd (app_display_set_text APP_DEVICE_TEXT_TYPE_SYSTEM
                        (Some ''Scan QR code with RainMaker'') w);
            w2 = change_emotion_visibility P (emote_handle (s_display_data w1)) False w1;
            w3 = do_call (Emote_set_qrcode_data (emote_handle (s_display_data w2)) event_data) w2
        in esp_event_handler_unregister APP_NETWORK_EVENT APP_NETWORK_EVENT_QR_DISPLAY w3
      else if event_base = WIFI_EVENT \<and> event_id = WIFI_EVENT_STA_CONNECTED then
        let w1 = snd (app_display_set_text APP_DEVICE_TEXT_TYPE_SYSTEM (Some ''WiFi connected'') w)
        in snd (app_display_set_emotion DISP_EMOTE_IDLE w1)
      else if event_base = WIFI_EVENT \<and> event_id = WIFI_EVENT_STA_DISCONNECTED then
        let w1 = snd (app_display_set_text APP_DEVICE_TEXT_TYPE_SYSTEM (Some ''WiFi connecting...'') w)
        in snd (app_display_set_emotion DISP_EMOTE_IDLE w1)
      else w)"

text \<open>
  An event posted to the loop reaches \<^verbatim>\<open>display_event_handler\<close> exactly when the
  handler is registered for it at that moment.
\<close>

definition esp_event_post ::
    "platform \<Rightarrow> esp_event_base_t \<Rightarrow> int \<Rightarrow> string option \<Rightarrow> world \<Rightarrow> world" where
  "esp_event_post P event_base event_id event_data w =
     (if (event_base, event_id) \<in> set (handlers w)
      then display_event_handler P event_base event_id event_data w
      else w)"

section \<open>Initialisation\<close>

text \<open>
  \<^verbatim>\<open>set_lcd_backlight\<close> is compiled in when \<^verbatim>\<open>LEDC_BACKLIGHT_SUPPORTED\<close> is set. Its
  \<^verbatim>\<open>ESP_RETURN_ON_ERROR\<close> exits return the non-zero error code from a function of type
  \<^verbatim>\<open>bool\<close>, which is \<^verbatim>\<open>true\<close>. The duty is computed in 32-bit \<^verbatim>\<open>int\<close>
  arithmetic: the shift, the subtraction and the product wrap around, the division is the
  signed, truncating one, and the result is stored in a \<^verbatim>\<open>uint32_t\<close> bit for bit.
\<close>

definition set_lcd_backlight :: "platform \<Rightarrow> 32 word \<Rightarrow> world \<Rightarrow> bool \<times> world" where
  "set_lcd_backlight P brightness_percent w =
     (if fst (get_handle_lcd_brightness P) \<noteq> ESP_OK then (True, w)
      else if get_config_lcd_brightness P \<noteq> ESP_OK then (True, w)
      else if fst (get_periph_config_ledc P) \<noteq> ESP_OK then (True, w)
      else
        let ledc_handle = snd (get_handle_lcd_brightness P);
            duty_resolution = snd (get_periph_config_ledc P);
            duty = (word_of_int
                      (sint (brightness_percent * (push_bit duty_resolution 1 - 1)) sdiv 100)
                    :: 32 word);
            w1 = do_call (Ledc_set_duty (speed_mode ledc_handle) (channel ledc_handle) duty) w
        in if ledc_set_duty_ret P \<noteq> ESP_OK then (True, w1)
           else
             let w2 = do_call (Ledc_update_duty (speed_mode ledc_handle) (channel ledc_handle)) w1
             in if ledc_update_duty_ret P \<noteq> ESP_OK then (True, w2) else (True, w2))"

definition emote_get_gfx_handle :: "platform \<Rightarrow> handle \<Rightarrow> handle" where
  "emote_get_gfx_handle P h = (if h = None then None else gfx_emote_handle P)"

definition init_emote :: "platform \<Rightarrow> 32 word \<Rightarrow> 32 word \<Rightarrow> world \<Rightarrow> handle \<times> world" where
  "init_emote P hres vres w =
     (let w1 = do_call (Emote_init hres vres (hres * 10)) w
      in case emote_init_ret P of
           None \<Rightarrow> (None, w1)
         | Some h \<Rightarrow>
             if \<not> emote_is_initialized_ret P then (None, do_call (Emote_deinit (Some h)) w1)
             else (Some h, w1))"

definition init_display :: "platform \<Rightarrow> world \<Rightarrow> esp_err_t \<times> world" where
  "init_display P w =
     (if fst (get_handle_display_lcd P) \<noteq> ESP_OK then (fst (get_handle_display_lcd P), w)
      else if fst (get_config_display_lcd P) \<noteq> ESP_OK then (fst (get_config_display_lcd P), w)
      else if fst (get_handle_lcd_touch P) \<noteq> ESP_OK then (fst (get_handle_lcd_touch P), w)
      else
        let display_handle = snd (get_handle_display_lcd P);
            display_config = snd (get_config_display_lcd P);
            touch = snd (get_handle_lcd_touch P);
            w1 = (if heap_caps_calloc_ok P
                  then do_call (VTaskDelay_ms 50)
                         (do_call (Esp_lcd_panel_draw_bitmap (dev_panel_handle display_handle) 0 0
                                     (lcd_width display_config) (lcd_height display_config)) w)
                  else w);
            w2 = do_call (Esp_lcd_panel_disp_on_off (dev_panel_handle display_handle) True) w1
        in if esp_lcd_panel_disp_on_off_ret P \<noteq> ESP_OK then (esp_lcd_panel_disp_on_off_ret P, w2)
           else
             let w3 = (if LEDC_BACKLIGHT_SUPPORTED P then snd (set_lcd_backlight P 100 w2) else w2);
                 w4 = do_call (Esp_lcd_panel_swap_xy (dev_panel_handle display_handle) False) w3;
                 w5 = (if LCD_MIRROR_X_Y P
                       then do_call (Esp_lcd_panel_mirror (dev_panel_handle display_handle) True True) w4
                       else w4);
                 w6 = w5\<lparr>s_display_data := (s_display_data w5)
                          \<lparr>panel_handle := dev_panel_handle display_handle,
                           io_handle := dev_io_handle display_handle,
                           touch_handle := touch,
                           h_res := lcd_width display_config,
                           v_res := lcd_height display_config\<rparr>\<rparr>
             in (ESP_OK, do_call App_touch_press_init w6))"

text \<open>The blocks of \<^verbatim>\<open>app_display_init\<close> after the engine is created, each under its guard.\<close>

definition init_register_io_callbacks :: "world \<Rightarrow> world" where
  "init_register_io_callbacks w =
     (if io_handle (s_display_data w) \<noteq> None \<and> emote_handle (s_display_data w) \<noteq> None
      then do_call (Esp_lcd_panel_io_register_event_callbacks
                      (io_handle (s_display_data w)) (emote_handle (s_display_data w))) w
      else w)"

definition init_load_assets :: "platform \<Rightarrow> world \<Rightarrow> world" where
  "init_load_assets P w =
     (if emote_handle (s_display_data w) \<noteq> None then
        let h = emote_handle (s_display_data w);
            w1 = do_call (Emote_load_assets_from_source h) w;
            w2 = do_call (Emote_set_event_msg h EMOTE_MGR_EVT_SYS (Some ''Initializing...'')) w1;
            label = emote_get_obj_by_name P ''toast_label'';
            w3 = do_call (Gfx_obj_align label 0 (gfx_obj_get_pos_y P)) w2;
            w4 = do_call (Gfx_label_set_long_mode label) w3;
            w5 = do_call (Gfx_label_set_scroll_step label 4) w4
        in do_call (Gfx_label_set_scroll_speed label 100) w5
      else w)"

definition init_touch_configure :: "world \<Rightarrow> world" where
  "init_touch_configure w =
     (if touch_handle (s_display_data w) \<noteq> None \<and> gfx_handle (s_display_data w) \<noteq> None
      then do_call (Gfx_touch_configure (gfx_handle (s_display_data w))
                      (touch_handle (s_display_data w)) 15) w
      else w)"

definition app_display_init :: "platform \<Rightarrow> world \<Rightarrow> esp_err_t \<times> world" where
  "app_display_init P w =
     (if initialized (s_display_data w) then (ESP_OK, w)
      else
        let (err, w1) = init_display P w
        in if err \<noteq> ESP_OK then (err, w1)
           else
             let (eh, w2) = init_emote P (h_res (s_display_data w1)) (v_res (s_display_data w1)) w1;
                 w3 = w2\<lparr>s_display_data := (s_display_data w2)\<lparr>emote_handle := eh\<rparr>\<rparr>;
                 w4 = init_register_io_callbacks w3;
                 w5 = init_load_assets P w4;
                 w6 = w5\<lparr>s_display_data := (s_display_data w5)
                          \<lparr>gfx_handle := emote_get_gfx_handle P (emote_handle (s_display_data w5))\<rparr>\<rparr>;
                 w7 = init_touch_configure w6;
                 w8 = esp_event_handler_register APP_NETWORK_EVENT APP_NETWORK_EVENT_QR_DISPLAY w7;
                 w9 = w8\<lparr>s_display_data := (s_display_data w8)\<lparr>initialized := True\<rparr>\<rparr>
             in (ESP_OK, snd (app_display_set_emotion DISP_EMOTE_IDLE w9)))"

section \<open>Reading the engine's state off the calls\<close>

text \<open>
  The engine shows the text of the last system message it was sent and the animation of
  the last emotion it was given; before the first one there is none.
\<close>

fun sys_text_of :: "call \<Rightarrow> string option list" where
  "sys_text_of (Emote_set_event_msg h EMOTE_MGR_EVT_SYS t) = [t]"
| "sys_text_of c = []"

fun emotion_of :: "call \<Rightarrow> string list" where
  "emotion_of (Emote_set_anim_emoji h e) = [e]"
| "emotion_of c = []"

definition status_text :: "call list \<Rightarrow> string option" where
  "status_text cs = (case concat (map sys_text_of cs) of [] \<Rightarrow> None | t # ts \<Rightarrow> last (t # ts))"

definition current_emotion :: "call list \<Rightarrow> string option" where
  "current_emotion cs = (case concat (map emotion_of cs) of [] \<Rightarrow> None | e # es \<Rightarrow> Some (last (e # es)))"

definition is_touch_configure :: "call \<Rightarrow> bool" where
  "is_touch_configure c = (case c of Gfx_touch_configure g t p \<Rightarrow> True | _ \<Rightarrow> False)"

definition is_qrcode_data :: "call \<Rightarrow> bool" where
  "is_qrcode_data c = (case c of Emote_set_qrcode_data h d \<Rightarrow> True | _ \<Rightarrow> False)"

definition is_load_assets :: "call \<Rightarrow> bool" where
  "is_load_assets c = (case c of Emote_load_assets_from_source h \<Rightarrow> True | _ \<Rightarrow> False)"

text \<open>
  A board for the examples: every device is present and every call succeeds. The world
  at boot has the zeroed \<^verbatim>\<open>s_display_data\<close>, no registration and no call made.
\<close>

definition board_ok :: platform where
  "board_ok =
     \<lparr>LEDC_BACKLIGHT_SUPPORTED = True, LCD_MIRROR_X_Y = False,
      get_handle_display_lcd = (ESP_OK, \<lparr>dev_panel_handle = Some 1, dev_io_handle = Some 2\<rparr>),
      get_config_display_lcd = (ESP_OK, \<lparr>lcd_width = 320, lcd_height = 240\<rparr>),
      get_handle_lcd_touch = (ESP_OK, Some 3),
      get_handle_lcd_brightness = (ESP_OK, \<lparr>speed_mode = 0, channel = 1\<rparr>),
      get_config_lcd_brightness = ESP_OK,
      get_periph_config_ledc = (ESP_OK, 13),
      ledc_set_duty_ret = ESP_OK, ledc_update_duty_ret = ESP_OK,
      heap_caps_calloc_ok = True,
      esp_lcd_panel_disp_on_off_ret = ESP_OK,
      emote_init_ret = Some 4, emote_is_initialized_ret = True,
      gfx_emote_handle = Some 5,
      emote_get_obj_by_name =
        (\<lambda>n. if n = ''eye_anim'' then Some 6 else if n = ''toast_label'' then Some 7 else None),
      gfx_obj_get_pos_y = 10,
      emote_set_event_msg_ret = ESP_OK\<rparr>"

definition boot :: world where
  "boot =
     \<lparr>s_display_data =
        \<lparr>initialized = False, panel_handle = None, io_handle = None, emote_handle = None,
         touch_handle = None, gfx_handle = None, h_res = 0, v_res = 0\<rparr>,
      handlers = [], calls = []\<rparr>"

text \<open>
  Two more boards: one where the board layer has no \<^verbatim>\<open>lcd_touch\<close> device, and one
  where the device is there and its \<^verbatim>\<open>touch_handle\<close> is \<^verbatim>\<open>NULL\<close>.
\<close>

definition board_no_touch :: platform where
  "board_no_touch = board_ok\<lparr>get_handle_lcd_touch := (ESP_ERR_NOT_FOUND, None)\<rparr>"

definition board_null_touch :: platform where
  "board_null_touch = board_ok\<lparr>get_handle_lcd_touch := (ESP_OK, None)\<rparr>"

text \<open>
  The world \<^verbatim>\<open>app_display_init\<close> leaves behind on the board where everything
  succeeds, started at boot.
\<close>

definition ready :: world where
  "ready =
     \<lparr>s_display_data =
        \<lparr>initialized = True, panel_handle = Some 1, io_handle = Some 2, emote_handle = Some 4,
         touch_handle = Some 3, gfx_handle = Some 5, h_res = 320, v_res = 240\<rparr>,
      handlers = [(APP_NETWORK_EVENT, APP_NETWORK_EVENT_QR_DISPLAY)],
      calls =
        [Esp_lcd_panel_draw_bitmap (Some 1) 0 0 320 240, VTaskDelay_ms 50,
         Esp_lcd_panel_disp_on_off (Some 1) True, Ledc_set_duty 0 1 8191,
         Ledc_update_duty 0 1, Esp_lcd_panel_swap_xy (Some 1) False,
         App_touch_press_init, Emote_init 320 240 3200,
         Esp_lcd_panel_io_register_event_callbacks (Some 2) (Some 4),
         Emote_load_assets_from_source (Some 4),
         Emote_set_event_msg (Some 4) EMOTE_MGR_EVT_SYS (Some ''Initializing...''),
         Gfx_obj_align (Some 7) 0 10, Gfx_label_set_long_mode (Some 7),
         Gfx_label_set_scroll_step (Some 7) 4,
         Gfx_label_set_scroll_speed (Some 7) 100,
         Gfx_touch_configure (Some 5) (Some 3) 15,
         Emote_set_anim_emoji (Some 4) DISP_EMOTE_IDLE]\<rparr>"

section \<open>Matching is the prefix rule\<close>

lemma tolower_c_zero: "tolower_c c = 0 \<longleftrightarrow> c = 0"
  by (simp add: tolower_c_def)

lemma strlen_no_nul: "\<forall>c \<in> set s. of_char c \<noteq> (0::int) \<Longrightarrow> strlen s = length s"
  by (induction s) (auto simp: strlen_def)

lemma strncasecmp_prefix:
  "\<forall>c \<in> set cand. of_char c \<noteq> (0::int) \<Longrightarrow>
   strncasecmp s cand (length cand) = 0 \<longleftrightarrow> spec_prefix_match s cand"
proof (induction cand arbitrary: s)
  case Nil
  then show ?case by (simp add: spec_prefix_match_def)
next
  case (Cons c cs)
  have c0: "tolower_c (of_char c) \<noteq> 0"
    using Cons.prems by (simp add: tolower_c_zero)
  show ?case
  proof (cases s)
    case Nil
    then show ?thesis
      using c0 by (simp add: byte_at_def spec_prefix_match_def Let_def tolower_c_def)
  next
    case (Cons x xs)
    have ih: "strncasecmp xs cs (length cs) = 0 \<longleftrightarrow> spec_prefix_match xs cs"
      using Cons.IH Cons.prems by simp
    show ?thesis
      using c0 ih Cons
      by (auto simp: byte_at_def spec_prefix_match_def Let_def lower_char_def)
  qed
qed


section \<open>The two emotions the controller sets itself\<close>

lemma set_emotion_idle:
  "initialized (s_display_data w) \<Longrightarrow>
   app_display_set_emotion DISP_EMOTE_IDLE w =
     (ESP_OK, do_call (Emote_set_anim_emoji (emote_handle (s_display_data w)) DISP_EMOTE_IDLE) w)"
  by (simp add: app_display_set_emotion_def valid_emotions_def DISP_EMOTE_defs emotion_matches_def
      strlen_def byte_at_def tolower_c_def Let_def)

lemma set_emotion_sleepy:
  "initialized (s_display_data w) \<Longrightarrow>
   app_display_set_emotion DISP_EMOTE_SLEEPY w =
     (ESP_OK, do_call (Emote_set_anim_emoji (emote_handle (s_display_data w)) DISP_EMOTE_SLEEPY) w)"
  by (simp add: app_display_set_emotion_def valid_emotions_def DISP_EMOTE_defs emotion_matches_def
      strlen_def byte_at_def tolower_c_def Let_def)

lemma init_board_ok: "app_display_init board_ok boot = (ESP_OK, ready)"
  by (simp add: app_display_init_def init_display_def init_emote_def set_lcd_backlight_def
      init_register_io_callbacks_def init_load_assets_def init_touch_configure_def
      emote_get_gfx_handle_def esp_event_handler_register_def set_emotion_idle
      board_ok_def boot_def ready_def do_call_def Let_def ESP_ERR_defs event_id_defs
      signed_divide_int_def)

lemma ready_initialized: "initialized (s_display_data ready)"
  by (simp add: ready_def)

section \<open>Operations before initialisation\<close>

text \<open>
  C5. While \<^verbatim>\<open>s_display_data.initialized\<close> is false, each of
  \<^verbatim>\<open>app_display_set_text\<close>, \<^verbatim>\<open>app_display_set_emotion\<close>,
  \<^verbatim>\<open>app_display_system_state_changed\<close> and \<^verbatim>\<open>app_display_send_event\<close> returns
  \<^verbatim>\<open>ESP_ERR_INVALID_STATE\<close> for every argument and leaves the whole world as it was:
  the display data, the registrations and the calls made on the engine.
\<close>

theorem uninitialized_ops_rejected:
  "\<not> initialized (s_display_data w) \<Longrightarrow>
     app_display_set_text text_type text w = (ESP_ERR_INVALID_STATE, w) \<and>
     app_display_set_emotion emotion w = (ESP_ERR_INVALID_STATE, w) \<and>
     app_display_system_state_changed P new_state w = (ESP_ERR_INVALID_STATE, w) \<and>
     app_display_send_event event message w = (ESP_ERR_INVALID_STATE, w)"
  by (simp add: app_display_set_text_def app_display_set_emotion_def
      app_display_system_state_changed_def app_display_send_event_def)

theorem uninitialized_ops_rejected_witness:
  "\<not> initialized (s_display_data boot) \<and>
   app_display_set_text APP_DEVICE_TEXT_TYPE_SYSTEM (Some ''hello'') boot = (ESP_ERR_INVALID_STATE, boot) \<and>
   app_display_set_emotion ''happy'' boot = (ESP_ERR_INVALID_STATE, boot) \<and>
   app_display_system_state_changed board_ok APP_DEVICE_SYSTEM_STATE_LISTENING boot
     = (ESP_ERR_INVALID_STATE, boot) \<and>
   app_display_send_event (Some ''wake'') None boot = (ESP_ERR_INVALID_STATE, boot)"
proof -
  have h: "\<not> initialized (s_display_data boot)"
    by (simp add: boot_def)
  show ?thesis
    using h uninitialized_ops_rejected [OF h, of APP_DEVICE_TEXT_TYPE_SYSTEM "Some ''hello''"
        "''happy''" board_ok APP_DEVICE_SYSTEM_STATE_LISTENING "Some ''wake''" None]
    by simp
qed

section \<open>Text channels\<close>

text \<open>
  C9. Once initialised, \<^verbatim>\<open>app_display_set_text\<close> on the assistant channel with a
  \<^verbatim>\<open>NULL\<close> or an empty text returns \<^verbatim>\<open>ESP_OK\<close> and makes no call at all, and with
  the text "hello" it returns \<^verbatim>\<open>ESP_OK\<close> after exactly one call: the speak message to the
  engine, carrying that text.
\<close>

theorem assistant_text_guard:
  "initialized (s_display_data w) \<Longrightarrow>
     app_display_set_text APP_DEVICE_TEXT_TYPE_ASSISTANT None w = (ESP_OK, w) \<and>
     app_display_set_text APP_DEVICE_TEXT_TYPE_ASSISTANT (Some []) w = (ESP_OK, w) \<and>
     app_display_set_text APP_DEVICE_TEXT_TYPE_ASSISTANT (Some ''hello'') w =
       (ESP_OK, w\<lparr>calls := calls w @
          [Emote_set_event_msg (emote_handle (s_display_data w)) EMOTE_MGR_EVT_SPEAK
             (Some ''hello'')]\<rparr>)"
  by (simp add: app_display_set_text_def strlen_def do_call_def)

theorem assistant_text_guard_witness:
  "initialized (s_display_data ready) \<and>
   app_display_set_text APP_DEVICE_TEXT_TYPE_ASSISTANT None ready = (ESP_OK, ready) \<and>
   app_display_set_text APP_DEVICE_TEXT_TYPE_ASSISTANT (Some []) ready = (ESP_OK, ready) \<and>
   calls (snd (app_display_set_text APP_DEVICE_TEXT_TYPE_ASSISTANT (Some ''hello'') ready)) =
     calls ready @ [Emote_set_event_msg (Some 4) EMOTE_MGR_EVT_SPEAK (Some ''hello'')]"
proof -
  have h: "initialized (s_display_data ready)"
    by (rule ready_initialized)
  have e: "emote_handle (s_display_data ready) = Some 4"
    by (simp add: ready_def)
  show ?thesis
    using h e assistant_text_guard [OF h] by simp
qed

text \<open>
  C10. Once initialised, \<^verbatim>\<open>app_display_set_text\<close> on the system channel sends the
  text to the engine as a system message and returns \<^verbatim>\<open>ESP_OK\<close> whatever the text is:
  a \<^verbatim>\<open>NULL\<close> pointer and the empty string are forwarded like any other.
\<close>

theorem system_text_unconditional:
  "initialized (s_display_data w) \<Longrightarrow>
     app_display_set_text APP_DEVICE_TEXT_TYPE_SYSTEM text w =
       (ESP_OK, w\<lparr>calls := calls w @
          [Emote_set_event_msg (emote_handle (s_display_data w)) EMOTE_MGR_EVT_SYS text]\<rparr>)"
  by (simp add: app_display_set_text_def do_call_def)

theorem system_text_unconditional_witness:
  "initialized (s_display_data ready) \<and>
   fst (app_display_set_text APP_DEVICE_TEXT_TYPE_SYSTEM None ready) = ESP_OK \<and>
   calls (snd (app_display_set_text APP_DEVICE_TEXT_TYPE_SYSTEM None ready)) =
     calls ready @ [Emote_set_event_msg (Some 4) EMOTE_MGR_EVT_SYS None]"
proof -
  have h: "initialized (s_display_data ready)"
    by (rule ready_initialized)
  have e: "emote_handle (s_display_data ready) = Some 4"
    by (simp add: ready_def)
  show ?thesis
    using h e system_text_unconditional [OF h, of None] by simp
qed

section \<open>System states\<close>

text \<open>
  C6. Once initialised, \<^verbatim>\<open>app_display_system_state_changed\<close> makes, for the listening
  state, exactly two calls in this order: the idle emotion, then the listen message with no
  text; for the sleep state one call, the sleepy emotion, returning \<^verbatim>\<open>ESP_OK\<close>; and for
  a state value outside the enumerators it handles it returns \<^verbatim>\<open>ESP_ERR_INVALID_ARG\<close>
  and changes nothing. For the listening state the value returned is the engine's answer
  to the listen message.
\<close>

theorem system_state_mapping:
  "initialized (s_display_data w) \<Longrightarrow>
     app_display_system_state_changed P APP_DEVICE_SYSTEM_STATE_LISTENING w =
       (emote_set_event_msg_ret P, w\<lparr>calls := calls w @
          [Emote_set_anim_emoji (emote_handle (s_display_data w)) DISP_EMOTE_IDLE,
           Emote_set_event_msg (emote_handle (s_display_data w)) EMOTE_MGR_EVT_LISTEN None]\<rparr>) \<and>
     app_display_system_state_changed P APP_DEVICE_SYSTEM_STATE_SLEEP w =
       (ESP_OK, w\<lparr>calls := calls w @
          [Emote_set_anim_emoji (emote_handle (s_display_data w)) DISP_EMOTE_SLEEPY]\<rparr>) \<and>
     app_display_system_state_changed P (APP_DEVICE_SYSTEM_STATE_other n) w =
       (ESP_ERR_INVALID_ARG, w)"
  by (simp add: app_display_system_state_changed_def set_emotion_idle set_emotion_sleepy
      do_call_def)

theorem system_state_mapping_witness:
  "initialized (s_display_data ready) \<and>
   calls (snd (app_display_system_state_changed board_ok APP_DEVICE_SYSTEM_STATE_LISTENING ready)) =
     calls ready @ [Emote_set_anim_emoji (Some 4) ''idle'',
                    Emote_set_event_msg (Some 4) EMOTE_MGR_EVT_LISTEN None] \<and>
   calls (snd (app_display_system_state_changed board_ok APP_DEVICE_SYSTEM_STATE_SLEEP ready)) =
     calls ready @ [Emote_set_anim_emoji (Some 4) ''sleepy''] \<and>
   app_display_system_state_changed board_ok (APP_DEVICE_SYSTEM_STATE_other 99) ready =
     (ESP_ERR_INVALID_ARG, ready)"
proof -
  have h: "initialized (s_display_data ready)"
    by (rule ready_initialized)
  have e: "emote_handle (s_display_data ready) = Some 4"
    by (simp add: ready_def)
  show ?thesis
    using h e system_state_mapping [OF h, of board_ok 99]
    by (simp add: DISP_EMOTE_defs)
qed

section \<open>Emotion names\<close>

lemma valid_emotions_no_nul:
  "cand \<in> set valid_emotions \<Longrightarrow> \<forall>c \<in> set cand. of_char c \<noteq> (0::int)"
  by (auto simp add: valid_emotions_def DISP_EMOTE_defs)

lemma emotion_matches_spec:
  "cand \<in> set valid_emotions \<Longrightarrow> emotion_matches e cand = spec_prefix_match e cand"
  using strncasecmp_prefix [OF valid_emotions_no_nul, of cand e]
        strlen_no_nul [OF valid_emotions_no_nul, of cand]
  by (simp add: emotion_matches_def)

lemma set_emotion_from_find:
  "\<forall>c \<in> set cs. emotion_matches e c = spec_prefix_match e c \<Longrightarrow>
   set_emotion_from e cs w =
     (case find (spec_prefix_match e) cs of
        None \<Rightarrow> (ESP_ERR_INVALID_ARG, w)
      | Some c \<Rightarrow> (ESP_OK, do_call (Emote_set_anim_emoji (emote_handle (s_display_data w)) c) w))"
  by (induction cs) auto

lemma is_emotion_valid_from_find:
  "\<forall>c \<in> set cs. emotion_matches e c = spec_prefix_match e c \<Longrightarrow>
   is_emotion_valid_from e cs = (find (spec_prefix_match e) cs \<noteq> None)"
  by (induction cs) auto

lemma find_Some_iff_Bex: "(find P xs \<noteq> None) = (\<exists>x \<in> set xs. P x)"
  by (induction xs) auto

lemma set_emotion_as_find:
  "initialized (s_display_data w) \<Longrightarrow>
   app_display_set_emotion e w =
     (case find (spec_prefix_match e) valid_emotions of
        None \<Rightarrow> (ESP_ERR_INVALID_ARG, w)
      | Some c \<Rightarrow>
          (ESP_OK, w\<lparr>calls := calls w @
             [Emote_set_anim_emoji (emote_handle (s_display_data w)) c]\<rparr>))"
  using set_emotion_from_find [of valid_emotions e w]
  by (simp add: app_display_set_emotion_def emotion_matches_spec do_call_def split: option.split)

lemma is_emotion_valid_as_find:
  "app_display_is_emotion_valid e = (find (spec_prefix_match e) valid_emotions \<noteq> None)"
  using is_emotion_valid_from_find [of valid_emotions e]
  by (simp add: app_display_is_emotion_valid_def emotion_matches_spec)

lemma find_Happy: "find (spec_prefix_match ''Happy'') valid_emotions = Some ''happy''"
  by (simp add: valid_emotions_def DISP_EMOTE_defs spec_prefix_match_def lower_char_def
      tolower_c_def)

lemma find_SAD: "find (spec_prefix_match ''SAD!!'') valid_emotions = Some ''sad''"
  by (simp add: valid_emotions_def DISP_EMOTE_defs spec_prefix_match_def lower_char_def
      tolower_c_def)

lemma find_ha: "find (spec_prefix_match ''ha'') valid_emotions = None"
  by (simp add: valid_emotions_def DISP_EMOTE_defs spec_prefix_match_def lower_char_def
      tolower_c_def)

lemma find_zzz: "find (spec_prefix_match ''zzz'') valid_emotions = None"
  by (simp add: valid_emotions_def DISP_EMOTE_defs spec_prefix_match_def lower_char_def
      tolower_c_def)

text \<open>
  C1. Once initialised, \<^verbatim>\<open>app_display_set_emotion\<close> succeeds exactly when the input
  begins, ignoring case, with one of the names of \<^verbatim>\<open>valid_emotions\<close> (so the input is
  at least as long as that name); the name sent to the engine is the first one in the
  order of the table that the input begins with, and with no such name the result is
  \<^verbatim>\<open>ESP_ERR_INVALID_ARG\<close> and nothing changes. "Happy" and "SAD!!" succeed, "ha" fails
  with \<^verbatim>\<open>ESP_ERR_INVALID_ARG\<close>.
\<close>

theorem set_emotion_prefix_match:
  "initialized (s_display_data w) \<Longrightarrow>
     app_display_set_emotion emotion w =
       (case find (spec_prefix_match emotion) valid_emotions of
          None \<Rightarrow> (ESP_ERR_INVALID_ARG, w)
        | Some c \<Rightarrow>
            (ESP_OK, w\<lparr>calls := calls w @
               [Emote_set_anim_emoji (emote_handle (s_display_data w)) c]\<rparr>)) \<and>
     (fst (app_display_set_emotion emotion w) = ESP_OK
        \<longleftrightarrow> (\<exists>c \<in> set valid_emotions. spec_prefix_match emotion c)) \<and>
     fst (app_display_set_emotion ''Happy'' w) = ESP_OK \<and>
     fst (app_display_set_emotion ''SAD!!'' w) = ESP_OK \<and>
     app_display_set_emotion ''ha'' w = (ESP_ERR_INVALID_ARG, w)"
proof -
  assume init: "initialized (s_display_data w)"
  note eq = set_emotion_as_find [OF init]
  have ok: "fst (app_display_set_emotion emotion w) = ESP_OK
        \<longleftrightarrow> (\<exists>c \<in> set valid_emotions. spec_prefix_match emotion c)"
    unfolding eq find_Some_iff_Bex [symmetric]
    by (simp add: ESP_ERR_defs split: option.split)
  show ?thesis
    using eq [of emotion] ok eq [of "''Happy''"] eq [of "''SAD!!''"] eq [of "''ha''"]
    by (simp add: find_Happy find_SAD find_ha)
qed

theorem set_emotion_prefix_match_witness:
  "initialized (s_display_data ready) \<and>
   app_display_set_emotion ''SAD!!'' ready =
     (ESP_OK, ready\<lparr>calls := calls ready @ [Emote_set_anim_emoji (Some 4) ''sad'']\<rparr>) \<and>
   app_display_set_emotion ''ha'' ready = (ESP_ERR_INVALID_ARG, ready)"
proof -
  have h: "initialized (s_display_data ready)"
    by (rule ready_initialized)
  have e: "emote_handle (s_display_data ready) = Some 4"
    by (simp add: ready_def)
  show ?thesis
    using h e set_emotion_prefix_match [OF h, of "''SAD!!''"]
    by (simp add: find_SAD)
qed

text \<open>
  C7. \<^verbatim>\<open>app_display_is_emotion_valid\<close> takes the name alone: it neither reads nor
  writes the display data, so it answers the same before and after initialisation and
  changes nothing. For every string it is true exactly when
  \<^verbatim>\<open>app_display_set_emotion\<close>, once initialised, returns \<^verbatim>\<open>ESP_OK\<close> on that string,
  which is when the string begins, ignoring case, with a name of the table; when it is
  false, \<^verbatim>\<open>app_display_set_emotion\<close> returns \<^verbatim>\<open>ESP_ERR_INVALID_ARG\<close> and leaves the
  world, and with it the engine's emotion, as it was. "zzz" is such a string.
\<close>

theorem is_emotion_valid_same_rule:
  "initialized (s_display_data w) \<Longrightarrow>
     (app_display_is_emotion_valid emotion
        \<longleftrightarrow> fst (app_display_set_emotion emotion w) = ESP_OK) \<and>
     (app_display_is_emotion_valid emotion
        \<longleftrightarrow> (\<exists>c \<in> set valid_emotions. spec_prefix_match emotion c)) \<and>
     (\<not> app_display_is_emotion_valid emotion
        \<longleftrightarrow> app_display_set_emotion emotion w = (ESP_ERR_INVALID_ARG, w)) \<and>
     \<not> app_display_is_emotion_valid ''zzz'' \<and>
     app_display_set_emotion ''zzz'' w = (ESP_ERR_INVALID_ARG, w)"
proof -
  assume init: "initialized (s_display_data w)"
  note v = is_emotion_valid_as_find
  note s = set_emotion_as_find [OF init]
  have a: "app_display_is_emotion_valid emotion
      \<longleftrightarrow> fst (app_display_set_emotion emotion w) = ESP_OK"
    unfolding v s by (simp add: ESP_ERR_defs split: option.split)
  have b: "app_display_is_emotion_valid emotion
      \<longleftrightarrow> (\<exists>c \<in> set valid_emotions. spec_prefix_match emotion c)"
    unfolding v by (rule find_Some_iff_Bex)
  have c: "\<not> app_display_is_emotion_valid emotion
      \<longleftrightarrow> app_display_set_emotion emotion w = (ESP_ERR_INVALID_ARG, w)"
    unfolding v s by (simp add: ESP_ERR_defs split: option.split)
  have d: "\<not> app_display_is_emotion_valid ''zzz''"
    unfolding v by (simp add: find_zzz)
  have e: "app_display_set_emotion ''zzz'' w = (ESP_ERR_INVALID_ARG, w)"
    unfolding s by (simp add: find_zzz)
  show ?thesis
    using a b c d e by blast
qed

theorem is_emotion_valid_same_rule_witness:
  "initialized (s_display_data ready) \<and>
   app_display_is_emotion_valid ''Happy'' \<and>
   fst (app_display_set_emotion ''Happy'' ready) = ESP_OK \<and>
   \<not> app_display_is_emotion_valid ''zzz'' \<and>
   app_display_set_emotion ''zzz'' ready = (ESP_ERR_INVALID_ARG, ready) \<and>
   current_emotion (calls (snd (app_display_set_emotion ''zzz'' ready))) = Some ''idle''"
proof -
  have h: "initialized (s_display_data ready)"
    by (rule ready_initialized)
  have v: "app_display_is_emotion_valid ''Happy''"
    by (simp add: is_emotion_valid_as_find find_Happy)
  have c: "current_emotion (calls ready) = Some ''idle''"
    by (simp add: ready_def current_emotion_def DISP_EMOTE_defs)
  show ?thesis
    using h v c is_emotion_valid_same_rule [OF h, of "''Happy''"]
    by simp
qed

section \<open>Initialisation, step by step\<close>

lemma do_call_fields:
  "s_display_data (do_call c w) = s_display_data w"
  "handlers (do_call c w) = handlers w"
  "calls (do_call c w) = calls w @ [c]"
  by (simp_all add: do_call_def)

lemma set_lcd_backlight_fields:
  "s_display_data (snd (set_lcd_backlight P b w)) = s_display_data w"
  "handlers (snd (set_lcd_backlight P b w)) = handlers w"
  "filter is_touch_configure (calls (snd (set_lcd_backlight P b w)))
     = filter is_touch_configure (calls w)"
  "filter is_load_assets (calls (snd (set_lcd_backlight P b w))) = filter is_load_assets (calls w)"
  by (simp_all add: set_lcd_backlight_def Let_def do_call_fields is_touch_configure_def
      is_load_assets_def)

lemma init_display_ok:
  assumes "fst (get_handle_display_lcd P) = ESP_OK" "fst (get_config_display_lcd P) = ESP_OK"
    "fst (get_handle_lcd_touch P) = ESP_OK" "esp_lcd_panel_disp_on_off_ret P = ESP_OK"
  shows "fst (init_display P w) = ESP_OK"
    "initialized (s_display_data (snd (init_display P w))) = initialized (s_display_data w)"
    "touch_handle (s_display_data (snd (init_display P w))) = snd (get_handle_lcd_touch P)"
    "handlers (snd (init_display P w)) = handlers w"
    "filter is_touch_configure (calls (snd (init_display P w))) = filter is_touch_configure (calls w)"
    "filter is_load_assets (calls (snd (init_display P w))) = filter is_load_assets (calls w)"
  using assms
  by (simp_all add: init_display_def Let_def do_call_fields set_lcd_backlight_fields
      is_touch_configure_def is_load_assets_def)

lemma init_emote_fields:
  "s_display_data (snd (init_emote P h v w)) = s_display_data w"
  "handlers (snd (init_emote P h v w)) = handlers w"
  "filter is_touch_configure (calls (snd (init_emote P h v w))) = filter is_touch_configure (calls w)"
  "filter is_load_assets (calls (snd (init_emote P h v w))) = filter is_load_assets (calls w)"
  by (simp_all add: init_emote_def Let_def do_call_fields is_touch_configure_def is_load_assets_def
      split: option.split)

lemma init_register_io_callbacks_fields:
  "s_display_data (init_register_io_callbacks w) = s_display_data w"
  "handlers (init_register_io_callbacks w) = handlers w"
  "filter is_touch_configure (calls (init_register_io_callbacks w))
     = filter is_touch_configure (calls w)"
  "filter is_load_assets (calls (init_register_io_callbacks w)) = filter is_load_assets (calls w)"
  by (simp_all add: init_register_io_callbacks_def do_call_fields is_touch_configure_def
      is_load_assets_def)

lemma init_load_assets_fields:
  "s_display_data (init_load_assets P w) = s_display_data w"
  "handlers (init_load_assets P w) = handlers w"
  "filter is_touch_configure (calls (init_load_assets P w)) = filter is_touch_configure (calls w)"
  "filter is_load_assets (calls (init_load_assets P w)) = filter is_load_assets (calls w) @
     (if emote_handle (s_display_data w) \<noteq> None
      then [Emote_load_assets_from_source (emote_handle (s_display_data w))] else [])"
  by (simp_all add: init_load_assets_def Let_def do_call_fields is_touch_configure_def
      is_load_assets_def)

lemma init_touch_configure_fields:
  "s_display_data (init_touch_configure w) = s_display_data w"
  "handlers (init_touch_configure w) = handlers w"
  "filter is_touch_configure (calls (init_touch_configure w)) = filter is_touch_configure (calls w) @
     (if touch_handle (s_display_data w) \<noteq> None \<and> gfx_handle (s_display_data w) \<noteq> None
      then [Gfx_touch_configure (gfx_handle (s_display_data w)) (touch_handle (s_display_data w)) 15]
      else [])"
  "filter is_load_assets (calls (init_touch_configure w)) = filter is_load_assets (calls w)"
  by (simp_all add: init_touch_configure_def do_call_fields is_touch_configure_def
      is_load_assets_def)

lemma app_display_init_unfold:
  "\<not> initialized (s_display_data w) \<Longrightarrow> fst (init_display P w) = ESP_OK \<Longrightarrow>
   app_display_init P w =
     (let w1 = snd (init_display P w);
          r = init_emote P (h_res (s_display_data w1)) (v_res (s_display_data w1)) w1;
          w3 = (snd r)\<lparr>s_display_data := (s_display_data (snd r))\<lparr>emote_handle := fst r\<rparr>\<rparr>;
          w5 = init_load_assets P (init_register_io_callbacks w3);
          w6 = w5\<lparr>s_display_data := (s_display_data w5)
                   \<lparr>gfx_handle := emote_get_gfx_handle P (emote_handle (s_display_data w5))\<rparr>\<rparr>;
          w8 = esp_event_handler_register APP_NETWORK_EVENT APP_NETWORK_EVENT_QR_DISPLAY
                 (init_touch_configure w6);
          w9 = w8\<lparr>s_display_data := (s_display_data w8)\<lparr>initialized := True\<rparr>\<rparr>
      in (ESP_OK, do_call (Emote_set_anim_emoji (emote_handle (s_display_data w9)) DISP_EMOTE_IDLE) w9))"
  by (simp add: app_display_init_def Let_def case_prod_beta set_emotion_idle)

lemma init_success_initialized:
  "fst (app_display_init P w) = ESP_OK \<Longrightarrow>
   initialized (s_display_data (snd (app_display_init P w)))"
  by (cases "initialized (s_display_data w)"; cases "fst (init_display P w) = ESP_OK")
     (simp_all add: app_display_init_unfold Let_def do_call_fields,
      simp_all add: app_display_init_def split: prod.splits)

text \<open>
  C8. When a call of \<^verbatim>\<open>app_display_init\<close> has returned \<^verbatim>\<open>ESP_OK\<close>, the next call
  returns \<^verbatim>\<open>ESP_OK\<close> and leaves the world exactly as the first call left it: the
  display data and the registrations are the same and no call is made on the panel, the
  board or the engine, whatever the board would answer now.
\<close>

theorem init_twice_is_noop:
  "fst (app_display_init P w) = ESP_OK \<Longrightarrow>
     app_display_init P' (snd (app_display_init P w)) = (ESP_OK, snd (app_display_init P w))"
  using init_success_initialized [of P w] by (simp add: app_display_init_def)

theorem init_twice_is_noop_witness:
  "fst (app_display_init board_ok boot) = ESP_OK \<and>
   snd (app_display_init board_ok boot) = ready \<and>
   app_display_init board_no_touch ready = (ESP_OK, ready)"
  using init_twice_is_noop [of board_ok boot board_no_touch] by (simp add: init_board_ok)

section \<open>Initialisation with a missing handle\<close>

lemma init_poller_and_assets:
  assumes "\<not> initialized (s_display_data w)"
    and "fst (get_handle_display_lcd P) = ESP_OK"
    and "fst (get_config_display_lcd P) = ESP_OK"
    and "fst (get_handle_lcd_touch P) = ESP_OK"
    and "esp_lcd_panel_disp_on_off_ret P = ESP_OK"
  shows "fst (app_display_init P w) = ESP_OK \<and>
     initialized (s_display_data (snd (app_display_init P w))) \<and>
     touch_handle (s_display_data (snd (app_display_init P w))) = snd (get_handle_lcd_touch P) \<and>
     filter is_touch_configure (calls (snd (app_display_init P w))) =
       filter is_touch_configure (calls w) @
       (if touch_handle (s_display_data (snd (app_display_init P w))) \<noteq> None \<and>
           gfx_handle (s_display_data (snd (app_display_init P w))) \<noteq> None
        then [Gfx_touch_configure (gfx_handle (s_display_data (snd (app_display_init P w))))
                (touch_handle (s_display_data (snd (app_display_init P w)))) 15]
        else []) \<and>
     filter is_load_assets (calls (snd (app_display_init P w))) =
       filter is_load_assets (calls w) @
       (if emote_handle (s_display_data (snd (app_display_init P w))) \<noteq> None
        then [Emote_load_assets_from_source
                (emote_handle (s_display_data (snd (app_display_init P w))))]
        else []) \<and>
     last (calls (snd (app_display_init P w))) =
       Emote_set_anim_emoji (emote_handle (s_display_data (snd (app_display_init P w))))
         DISP_EMOTE_IDLE"
proof -
  note ok = init_display_ok [OF assms(2-5), of w]
  show ?thesis
    unfolding app_display_init_unfold [OF assms(1) ok(1)]
    by (simp add: Let_def do_call_fields ok init_emote_fields init_register_io_callbacks_fields
        init_load_assets_fields init_touch_configure_fields esp_event_handler_register_def
        is_touch_configure_def is_load_assets_def)
qed

lemma set_lcd_backlight_touch_indep:
  "set_lcd_backlight (P\<lparr>get_handle_lcd_touch := x\<rparr>) b w = set_lcd_backlight P b w"
  by (simp add: set_lcd_backlight_def Let_def)

lemma set_lcd_backlight_engine_indep:
  "set_lcd_backlight
     (P\<lparr>emote_init_ret := e, emote_is_initialized_ret := b, gfx_emote_handle := g\<rparr>) bp w =
   set_lcd_backlight P bp w"
  by (simp add: set_lcd_backlight_def Let_def)

lemma init_display_engine_indep:
  "init_display
     (P\<lparr>emote_init_ret := e, emote_is_initialized_ret := b, gfx_emote_handle := g\<rparr>) w =
   init_display P w"
  by (simp add: init_display_def Let_def set_lcd_backlight_engine_indep)

lemma init_display_touch_indep:
  assumes "fst (get_handle_display_lcd P) = ESP_OK" "fst (get_config_display_lcd P) = ESP_OK"
    "fst (get_handle_lcd_touch P) = ESP_OK" "esp_lcd_panel_disp_on_off_ret P = ESP_OK"
  shows "init_display (P\<lparr>get_handle_lcd_touch := (ESP_OK, t)\<rparr>) w =
     (ESP_OK, (snd (init_display P w))
        \<lparr>s_display_data := (s_display_data (snd (init_display P w)))\<lparr>touch_handle := t\<rparr>\<rparr>)"
  using assms
  by (simp add: init_display_def Let_def set_lcd_backlight_touch_indep do_call_def)

lemma set_lcd_backlight_sys_texts:
  "concat (map sys_text_of (calls (snd (set_lcd_backlight P b w)))) = concat (map sys_text_of (calls w))"
  by (simp add: set_lcd_backlight_def Let_def do_call_fields)

lemma init_display_sys_texts:
  "concat (map sys_text_of (calls (snd (init_display P w)))) = concat (map sys_text_of (calls w))"
  by (simp add: init_display_def Let_def do_call_fields set_lcd_backlight_sys_texts)

lemma init_display_data:
  assumes "fst (get_handle_display_lcd P) = ESP_OK" "fst (get_config_display_lcd P) = ESP_OK"
    "fst (get_handle_lcd_touch P) = ESP_OK" "esp_lcd_panel_disp_on_off_ret P = ESP_OK"
  shows "s_display_data (snd (init_display P w)) = (s_display_data w)
        \<lparr>panel_handle := dev_panel_handle (snd (get_handle_display_lcd P)),
         io_handle := dev_io_handle (snd (get_handle_display_lcd P)),
         touch_handle := snd (get_handle_lcd_touch P),
         h_res := lcd_width (snd (get_config_display_lcd P)),
         v_res := lcd_height (snd (get_config_display_lcd P))\<rparr>"
  using assms
  by (simp add: init_display_def Let_def do_call_fields set_lcd_backlight_fields)

lemma init_emote_explicit:
  "init_emote P h v w =
     ((case emote_init_ret P of None \<Rightarrow> None
       | Some h' \<Rightarrow> if emote_is_initialized_ret P then Some h' else None),
      w\<lparr>calls := calls w @ [Emote_init h v (h * 10)] @
         (case emote_init_ret P of None \<Rightarrow> []
          | Some h' \<Rightarrow> if emote_is_initialized_ret P then [] else [Emote_deinit (Some h')])\<rparr>)"
  by (simp add: init_emote_def Let_def do_call_def split: option.split)

lemma init_register_io_callbacks_explicit:
  "init_register_io_callbacks w =
     w\<lparr>calls := calls w @
        (if io_handle (s_display_data w) \<noteq> None \<and> emote_handle (s_display_data w) \<noteq> None
         then [Esp_lcd_panel_io_register_event_callbacks
                 (io_handle (s_display_data w)) (emote_handle (s_display_data w))]
         else [])\<rparr>"
  by (simp add: init_register_io_callbacks_def do_call_def)

lemma init_load_assets_explicit:
  "init_load_assets P w =
     w\<lparr>calls := calls w @
        (if emote_handle (s_display_data w) \<noteq> None
         then [Emote_load_assets_from_source (emote_handle (s_display_data w)),
               Emote_set_event_msg (emote_handle (s_display_data w)) EMOTE_MGR_EVT_SYS
                 (Some ''Initializing...''),
               Gfx_obj_align (emote_get_obj_by_name P ''toast_label'') 0 (gfx_obj_get_pos_y P),
               Gfx_label_set_long_mode (emote_get_obj_by_name P ''toast_label''),
               Gfx_label_set_scroll_step (emote_get_obj_by_name P ''toast_label'') 4,
               Gfx_label_set_scroll_speed (emote_get_obj_by_name P ''toast_label'') 100]
         else [])\<rparr>"
  by (simp add: init_load_assets_def Let_def do_call_def)

lemma init_touch_configure_explicit:
  "init_touch_configure w =
     w\<lparr>calls := calls w @
        (if touch_handle (s_display_data w) \<noteq> None \<and> gfx_handle (s_display_data w) \<noteq> None
         then [Gfx_touch_configure (gfx_handle (s_display_data w))
                 (touch_handle (s_display_data w)) 15]
         else [])\<rparr>"
  by (simp add: init_touch_configure_def do_call_def)

lemma app_display_init_explicit:
  assumes "\<not> initialized (s_display_data w)" "fst (init_display P w) = ESP_OK"
  shows "snd (app_display_init P w) =
     (let w1 = snd (init_display P w); d1 = s_display_data w1;
          eh = (case emote_init_ret P of None \<Rightarrow> None
                | Some h \<Rightarrow> if emote_is_initialized_ret P then Some h else None);
          gfx = (if eh = None then None else gfx_emote_handle P);
          label = emote_get_obj_by_name P ''toast_label''
      in w1\<lparr>s_display_data := d1\<lparr>emote_handle := eh, gfx_handle := gfx, initialized := True\<rparr>,
            handlers := List.insert (APP_NETWORK_EVENT, APP_NETWORK_EVENT_QR_DISPLAY) (handlers w1),
            calls := calls w1 @
              [Emote_init (h_res d1) (v_res d1) (h_res d1 * 10)] @
              (case emote_init_ret P of None \<Rightarrow> []
               | Some h \<Rightarrow> if emote_is_initialized_ret P then [] else [Emote_deinit (Some h)]) @
              (if io_handle d1 \<noteq> None \<and> eh \<noteq> None
               then [Esp_lcd_panel_io_register_event_callbacks (io_handle d1) eh] else []) @
              (if eh \<noteq> None
               then [Emote_load_assets_from_source eh,
                     Emote_set_event_msg eh EMOTE_MGR_EVT_SYS (Some ''Initializing...''),
                     Gfx_obj_align label 0 (gfx_obj_get_pos_y P),
                     Gfx_label_set_long_mode label,
                     Gfx_label_set_scroll_step label 4,
                     Gfx_label_set_scroll_speed label 100]
               else []) @
              (if touch_handle d1 \<noteq> None \<and> gfx \<noteq> None
               then [Gfx_touch_configure gfx (touch_handle d1) 15] else []) @
              [Emote_set_anim_emoji eh DISP_EMOTE_IDLE]\<rparr>)"
  unfolding app_display_init_unfold [OF assms]
  by (simp add: Let_def init_emote_explicit init_register_io_callbacks_explicit
      init_load_assets_explicit init_touch_configure_explicit emote_get_gfx_handle_def
      esp_event_handler_register_def do_call_def)


lemma status_text_alt:
  "status_text cs =
     (if concat (map sys_text_of cs) = [] then None else last (concat (map sys_text_of cs)))"
  by (cases "concat (map sys_text_of cs)") (simp_all add: status_text_def del: concat_eq_Nil_conv)

lemma current_emotion_alt:
  "current_emotion cs =
     (if concat (map emotion_of cs) = [] then None else Some (last (concat (map emotion_of cs))))"
  by (cases "concat (map emotion_of cs)") (simp_all add: current_emotion_def del: concat_eq_Nil_conv)

lemma current_emotion_snoc:
  "current_emotion (cs @ [Emote_set_anim_emoji h e]) = Some e"
  by (simp add: current_emotion_alt)

lemma current_emotion_last:
  assumes "cs \<noteq> []" and "last cs = Emote_set_anim_emoji h e"
  shows "current_emotion cs = Some e"
proof -
  have "cs = butlast cs @ [Emote_set_anim_emoji h e]"
    using assms by (metis append_butlast_last_id)
  then show ?thesis
    using current_emotion_snoc [of "butlast cs" h e] by simp
qed

section \<open>Initialisation and the touch device\<close>

text \<open>
  C3, counterexample. On the board whose board layer has no \<^verbatim>\<open>lcd_touch\<close> device the
  touch handle is absent and initialisation does not succeed: the lookup in
  \<^verbatim>\<open>init_display\<close> is under \<^verbatim>\<open>ESP_RETURN_ON_ERROR\<close>, so \<^verbatim>\<open>app_display_init\<close>
  returns the lookup's error, nothing is initialised and no call has been made.
\<close>

theorem init_fails_without_touch_device:
  "app_display_init board_no_touch boot = (ESP_ERR_NOT_FOUND, boot) \<and>
   fst (app_display_init board_no_touch boot) \<noteq> ESP_OK \<and>
   \<not> initialized (s_display_data (snd (app_display_init board_no_touch boot)))"
  by (simp add: app_display_init_def init_display_def board_no_touch_def board_ok_def boot_def
      ESP_ERR_defs)

text \<open>
  C3, amended. When the lookups of the display handle, the display configuration and the
  touch device succeed and the panel turns on, \<^verbatim>\<open>app_display_init\<close> returns
  \<^verbatim>\<open>ESP_OK\<close> and sets \<^verbatim>\<open>initialized\<close>, whether or not the touch handle found in the
  device or the engine handle is \<^verbatim>\<open>NULL\<close>. The engine handle kept is the engine's own
  answer (\<^verbatim>\<open>NULL\<close> only when \<^verbatim>\<open>emote_init\<close> fails or reports itself uninitialised),
  the graphics handle is read from it, and neither depends on the touch handle. The panel
  bring-up of \<^verbatim>\<open>init_display\<close> does not depend on the engine's answers, and after it the
  calls are exactly: the engine's creation; the transfer-done callback when the I/O handle
  and the engine handle are there; the assets, the "Initializing..." message and the label
  set-up when the engine handle is there; the touch poller when the touch handle and the
  graphics handle are there; and the idle emotion, always. So the status text reads
  "Initializing..." whenever the engine is there and the emotion reads idle. On the same
  board with the touch handle \<^verbatim>\<open>NULL\<close> initialisation succeeds as well, and the run
  differs from the one with the touch handle only in the stored touch handle and in the
  one poller call, which is missing just before the final idle emotion; the
  registrations and every other call are the same.
\<close>

theorem init_degrades_gracefully:
  assumes "\<not> initialized (s_display_data w)"
    and "fst (get_handle_display_lcd P) = ESP_OK"
    and "fst (get_config_display_lcd P) = ESP_OK"
    and "fst (get_handle_lcd_touch P) = ESP_OK"
    and "esp_lcd_panel_disp_on_off_ret P = ESP_OK"
  shows "let w' = snd (app_display_init P w); d' = s_display_data w';
             w0 = snd (app_display_init (P\<lparr>get_handle_lcd_touch := (ESP_OK, None)\<rparr>) w)
         in fst (app_display_init P w) = ESP_OK \<and>
            initialized d' \<and>
            touch_handle d' = snd (get_handle_lcd_touch P) \<and>
            emote_handle d' =
              (case emote_init_ret P of None \<Rightarrow> None
               | Some h \<Rightarrow> if emote_is_initialized_ret P then Some h else None) \<and>
            gfx_handle d' = (if emote_handle d' = None then None else gfx_emote_handle P) \<and>
            handlers w' =
              List.insert (APP_NETWORK_EVENT, APP_NETWORK_EVENT_QR_DISPLAY) (handlers w) \<and>
            init_display
              (P\<lparr>emote_init_ret := e, emote_is_initialized_ret := b, gfx_emote_handle := g\<rparr>) w =
              init_display P w \<and>
            calls w' =
              calls (snd (init_display P w)) @
              [Emote_init (h_res d') (v_res d') (h_res d' * 10)] @
              (case emote_init_ret P of None \<Rightarrow> []
               | Some h \<Rightarrow> if emote_is_initialized_ret P then [] else [Emote_deinit (Some h)]) @
              (if io_handle d' \<noteq> None \<and> emote_handle d' \<noteq> None
               then [Esp_lcd_panel_io_register_event_callbacks (io_handle d') (emote_handle d')]
               else []) @
              (if emote_handle d' \<noteq> None
               then [Emote_load_assets_from_source (emote_handle d'),
                     Emote_set_event_msg (emote_handle d') EMOTE_MGR_EVT_SYS
                       (Some ''Initializing...''),
                     Gfx_obj_align (emote_get_obj_by_name P ''toast_label'') 0
                       (gfx_obj_get_pos_y P),
                     Gfx_label_set_long_mode (emote_get_obj_by_name P ''toast_label''),
                     Gfx_label_set_scroll_step (emote_get_obj_by_name P ''toast_label'') 4,
                     Gfx_label_set_scroll_speed (emote_get_obj_by_name P ''toast_label'') 100]
               else []) @
              (if touch_handle d' \<noteq> None \<and> gfx_handle d' \<noteq> None
               then [Gfx_touch_configure (gfx_handle d') (touch_handle d') 15] else []) @
              [Emote_set_anim_emoji (emote_handle d') DISP_EMOTE_IDLE] \<and>
            filter is_touch_configure (calls w') =
              filter is_touch_configure (calls w) @
              (if touch_handle d' \<noteq> None \<and> gfx_handle d' \<noteq> None
               then [Gfx_touch_configure (gfx_handle d') (touch_handle d') 15] else []) \<and>
            filter is_load_assets (calls w') =
              filter is_load_assets (calls w) @
              (if emote_handle d' \<noteq> None then [Emote_load_assets_from_source (emote_handle d')]
               else []) \<and>
            last (calls w') = Emote_set_anim_emoji (emote_handle d') DISP_EMOTE_IDLE \<and>
            current_emotion (calls w') = Some DISP_EMOTE_IDLE \<and>
            status_text (calls w') =
              (if emote_handle d' \<noteq> None then Some ''Initializing...'' else status_text (calls w)) \<and>
            fst (app_display_init (P\<lparr>get_handle_lcd_touch := (ESP_OK, None)\<rparr>) w) = ESP_OK \<and>
            s_display_data w0 = d'\<lparr>touch_handle := None\<rparr> \<and>
            handlers w0 = handlers w' \<and>
            calls w' =
              (if touch_handle d' \<noteq> None \<and> gfx_handle d' \<noteq> None
               then butlast (calls w0) @
                    [Gfx_touch_configure (gfx_handle d') (touch_handle d') 15, last (calls w0)]
               else calls w0)"
proof -
  let ?P0 = "P\<lparr>get_handle_lcd_touch := (ESP_OK, None)\<rparr>"
  let ?w' = "snd (app_display_init P w)"
  let ?w0 = "snd (app_display_init ?P0 w)"
  let ?w1 = "snd (init_display P w)"
  note ok = init_display_ok [OF assms(2-5), of w]
  note old = init_poller_and_assets [OF assms]
  note E = app_display_init_explicit [OF assms(1) ok(1)]
  have ind: "init_display ?P0 w =
      (ESP_OK, ?w1\<lparr>s_display_data := (s_display_data ?w1)\<lparr>touch_handle := None\<rparr>\<rparr>)"
    by (rule init_display_touch_indep [OF assms(2-5)])
  have ok0: "fst (init_display ?P0 w) = ESP_OK"
    by (simp add: ind)
  note E0 = app_display_init_explicit [OF assms(1) ok0]
  have eh: "emote_handle (s_display_data ?w') =
      (case emote_init_ret P of None \<Rightarrow> None
       | Some h \<Rightarrow> if emote_is_initialized_ret P then Some h else None)"
    unfolding E by (simp add: Let_def)
  have gfx: "gfx_handle (s_display_data ?w') =
      (if emote_handle (s_display_data ?w') = None then None else gfx_emote_handle P)"
    unfolding E by (simp add: Let_def)
  have hs: "handlers ?w' =
      List.insert (APP_NETWORK_EVENT, APP_NETWORK_EVENT_QR_DISPLAY) (handlers w)"
    unfolding E by (simp add: Let_def ok)
  have eng: "init_display
      (P\<lparr>emote_init_ret := e, emote_is_initialized_ret := b, gfx_emote_handle := g\<rparr>) w =
      init_display P w"
    by (rule init_display_engine_indep)
  have tr: "calls ?w' =
      calls (snd (init_display P w)) @
      [Emote_init (h_res (s_display_data ?w')) (v_res (s_display_data ?w'))
         (h_res (s_display_data ?w') * 10)] @
      (case emote_init_ret P of None \<Rightarrow> []
       | Some h \<Rightarrow> if emote_is_initialized_ret P then [] else [Emote_deinit (Some h)]) @
      (if io_handle (s_display_data ?w') \<noteq> None \<and> emote_handle (s_display_data ?w') \<noteq> None
       then [Esp_lcd_panel_io_register_event_callbacks (io_handle (s_display_data ?w'))
               (emote_handle (s_display_data ?w'))]
       else []) @
      (if emote_handle (s_display_data ?w') \<noteq> None
       then [Emote_load_assets_from_source (emote_handle (s_display_data ?w')),
             Emote_set_event_msg (emote_handle (s_display_data ?w')) EMOTE_MGR_EVT_SYS
               (Some ''Initializing...''),
             Gfx_obj_align (emote_get_obj_by_name P ''toast_label'') 0 (gfx_obj_get_pos_y P),
             Gfx_label_set_long_mode (emote_get_obj_by_name P ''toast_label''),
             Gfx_label_set_scroll_step (emote_get_obj_by_name P ''toast_label'') 4,
             Gfx_label_set_scroll_speed (emote_get_obj_by_name P ''toast_label'') 100]
       else []) @
      (if touch_handle (s_display_data ?w') \<noteq> None \<and> gfx_handle (s_display_data ?w') \<noteq> None
       then [Gfx_touch_configure (gfx_handle (s_display_data ?w'))
               (touch_handle (s_display_data ?w')) 15]
       else []) @
      [Emote_set_anim_emoji (emote_handle (s_display_data ?w')) DISP_EMOTE_IDLE]"
    unfolding E by (simp add: Let_def)
  have emo: "current_emotion (calls ?w') = Some DISP_EMOTE_IDLE"
  proof (rule current_emotion_last)
    show "calls ?w' \<noteq> []"
      unfolding E by (simp add: Let_def)
    show "last (calls ?w') =
        Emote_set_anim_emoji (emote_handle (s_display_data ?w')) DISP_EMOTE_IDLE"
      using old by simp
  qed
  have sys: "concat (map sys_text_of (calls ?w')) =
      concat (map sys_text_of (calls w)) @
      (if emote_handle (s_display_data ?w') \<noteq> None then [Some ''Initializing...''] else [])"
    unfolding E by (simp add: Let_def init_display_sys_texts split: option.split)
  have st: "status_text (calls ?w') =
      (if emote_handle (s_display_data ?w') \<noteq> None then Some ''Initializing...''
       else status_text (calls w))"
    unfolding status_text_alt sys by (simp del: concat_eq_Nil_conv)
  have fst0: "fst (app_display_init ?P0 w) = ESP_OK"
    using app_display_init_unfold [OF assms(1) ok0] by (simp add: Let_def)
  have d0: "s_display_data ?w0 = (s_display_data ?w')\<lparr>touch_handle := None\<rparr>"
    unfolding E E0 by (simp add: Let_def ind split: option.split)
  have h0: "handlers ?w0 = handlers ?w'"
    unfolding E E0 by (simp add: Let_def ind split: option.split)
  have c0: "calls ?w' =
      (if touch_handle (s_display_data ?w') \<noteq> None \<and> gfx_handle (s_display_data ?w') \<noteq> None
       then butlast (calls ?w0) @
            [Gfx_touch_configure (gfx_handle (s_display_data ?w'))
               (touch_handle (s_display_data ?w')) 15, last (calls ?w0)]
       else calls ?w0)"
    unfolding E E0 by (simp add: Let_def ind butlast_append split: option.split)
  show ?thesis
    unfolding Let_def
    by (intro conjI)
       (rule old [THEN conjunct1],
        rule old [THEN conjunct2, THEN conjunct1],
        rule old [THEN conjunct2, THEN conjunct2, THEN conjunct1],
        rule eh, rule gfx, rule hs, rule eng, rule tr,
        rule old [THEN conjunct2, THEN conjunct2, THEN conjunct2, THEN conjunct1],
        rule old [THEN conjunct2, THEN conjunct2, THEN conjunct2, THEN conjunct2, THEN conjunct1],
        rule old [THEN conjunct2, THEN conjunct2, THEN conjunct2, THEN conjunct2, THEN conjunct2],
        rule emo, rule st, rule fst0, rule d0, rule h0, rule c0)
qed

theorem init_degrades_gracefully_witness:
  "\<not> initialized (s_display_data boot) \<and>
   fst (get_handle_display_lcd board_ok) = ESP_OK \<and>
   fst (get_config_display_lcd board_ok) = ESP_OK \<and>
   fst (get_handle_lcd_touch board_ok) = ESP_OK \<and>
   esp_lcd_panel_disp_on_off_ret board_ok = ESP_OK \<and>
   fst (app_display_init board_null_touch boot) = ESP_OK \<and>
   s_display_data (snd (app_display_init board_null_touch boot)) =
     (s_display_data ready)\<lparr>touch_handle := None\<rparr> \<and>
   handlers (snd (app_display_init board_null_touch boot)) = handlers ready \<and>
   calls ready =
     butlast (calls (snd (app_display_init board_null_touch boot))) @
     [Gfx_touch_configure (Some 5) (Some 3) 15,
      last (calls (snd (app_display_init board_null_touch boot)))] \<and>
   status_text (calls ready) = Some ''Initializing...''"
proof -
  have h: "\<not> initialized (s_display_data boot)"
    "fst (get_handle_display_lcd board_ok) = ESP_OK"
    "fst (get_config_display_lcd board_ok) = ESP_OK"
    "fst (get_handle_lcd_touch board_ok) = ESP_OK"
    "esp_lcd_panel_disp_on_off_ret board_ok = ESP_OK"
    by (simp_all add: boot_def board_ok_def)
  have r: "snd (app_display_init board_ok boot) = ready"
    by (simp add: init_board_ok)
  have f: "touch_handle (s_display_data ready) = Some 3"
    "gfx_handle (s_display_data ready) = Some 5"
    "emote_handle (s_display_data ready) = Some 4"
    by (simp_all add: ready_def)
  note t = init_degrades_gracefully [OF h, unfolded Let_def r board_null_touch_def [symmetric] f]
  have st: "status_text (calls ready) = Some ''Initializing...''"
    using t [THEN conjunct2, THEN conjunct2, THEN conjunct2, THEN conjunct2, THEN conjunct2, THEN conjunct2, THEN conjunct2, THEN conjunct2, THEN conjunct2, THEN conjunct2, THEN conjunct2, THEN conjunct2, THEN conjunct1] by simp
  have ok0: "fst (app_display_init board_null_touch boot) = ESP_OK"
    by (rule t [THEN conjunct2, THEN conjunct2, THEN conjunct2, THEN conjunct2, THEN conjunct2, THEN conjunct2, THEN conjunct2, THEN conjunct2, THEN conjunct2, THEN conjunct2, THEN conjunct2, THEN conjunct2, THEN conjunct2, THEN conjunct1])
  have d0: "s_display_data (snd (app_display_init board_null_touch boot)) =
      (s_display_data ready)\<lparr>touch_handle := None\<rparr>"
    by (rule t [THEN conjunct2, THEN conjunct2, THEN conjunct2, THEN conjunct2, THEN conjunct2, THEN conjunct2, THEN conjunct2, THEN conjunct2, THEN conjunct2, THEN conjunct2, THEN conjunct2, THEN conjunct2, THEN conjunct2, THEN conjunct2, THEN conjunct1])
  have h0: "handlers (snd (app_display_init board_null_touch boot)) = handlers ready"
    by (rule t [THEN conjunct2, THEN conjunct2, THEN conjunct2, THEN conjunct2, THEN conjunct2, THEN conjunct2, THEN conjunct2, THEN conjunct2, THEN conjunct2, THEN conjunct2, THEN conjunct2, THEN conjunct2, THEN conjunct2, THEN conjunct2, THEN conjunct2, THEN conjunct1])
  have c0: "calls ready =
      butlast (calls (snd (app_display_init board_null_touch boot))) @
      [Gfx_touch_configure (Some 5) (Some 3) 15,
       last (calls (snd (app_display_init board_null_touch boot)))]"
    using t [THEN conjunct2, THEN conjunct2, THEN conjunct2, THEN conjunct2, THEN conjunct2, THEN conjunct2, THEN conjunct2, THEN conjunct2, THEN conjunct2, THEN conjunct2, THEN conjunct2, THEN conjunct2, THEN conjunct2, THEN conjunct2, THEN conjunct2, THEN conjunct2] by simp
  show ?thesis
    by (intro conjI) (rule h(1), rule h(2), rule h(3), rule h(4), rule h(5),
        rule ok0, rule d0, rule h0, rule c0, rule st)
qed

section \<open>Events\<close>

text \<open>
  C4. With the handler registered for the QR-display event and the display initialised,
  the first QR-display event makes the handler send the status prompt, hide the eye
  animation (when the engine handle and the object are there) and push the payload, and
  then unregister itself; a second QR-display event finds no registration and changes
  nothing, so after both events the QR payload has been pushed exactly once more than
  before, with the first event's data.
\<close>

theorem qr_event_handled_once:
  assumes "initialized (s_display_data w)"
    and "(APP_NETWORK_EVENT, APP_NETWORK_EVENT_QR_DISPLAY) \<in> set (handlers w)"
  shows "calls (esp_event_post P APP_NETWORK_EVENT APP_NETWORK_EVENT_QR_DISPLAY d1 w) =
       calls w @
       [Emote_set_event_msg (emote_handle (s_display_data w)) EMOTE_MGR_EVT_SYS
          (Some ''Scan QR code with RainMaker'')] @
       (if emote_handle (s_display_data w) = None then []
        else case emote_get_obj_by_name P ''eye_anim'' of
               None \<Rightarrow> []
             | Some obj \<Rightarrow> [Gfx_obj_set_visible (Some obj) False]) @
       [Emote_set_qrcode_data (emote_handle (s_display_data w)) d1] \<and>
     (APP_NETWORK_EVENT, APP_NETWORK_EVENT_QR_DISPLAY)
        \<notin> set (handlers (esp_event_post P APP_NETWORK_EVENT APP_NETWORK_EVENT_QR_DISPLAY d1 w)) \<and>
     esp_event_post P APP_NETWORK_EVENT APP_NETWORK_EVENT_QR_DISPLAY d2
         (esp_event_post P APP_NETWORK_EVENT APP_NETWORK_EVENT_QR_DISPLAY d1 w) =
       esp_event_post P APP_NETWORK_EVENT APP_NETWORK_EVENT_QR_DISPLAY d1 w \<and>
     filter is_qrcode_data
         (calls (esp_event_post P APP_NETWORK_EVENT APP_NETWORK_EVENT_QR_DISPLAY d2
                   (esp_event_post P APP_NETWORK_EVENT APP_NETWORK_EVENT_QR_DISPLAY d1 w))) =
       filter is_qrcode_data (calls w) @
       [Emote_set_qrcode_data (emote_handle (s_display_data w)) d1]"
proof -
  let ?w1 = "esp_event_post P APP_NETWORK_EVENT APP_NETWORK_EVENT_QR_DISPLAY d1 w"
  have c: "calls ?w1 =
       calls w @
       [Emote_set_event_msg (emote_handle (s_display_data w)) EMOTE_MGR_EVT_SYS
          (Some ''Scan QR code with RainMaker'')] @
       (if emote_handle (s_display_data w) = None then []
        else case emote_get_obj_by_name P ''eye_anim'' of
               None \<Rightarrow> []
             | Some obj \<Rightarrow> [Gfx_obj_set_visible (Some obj) False]) @
       [Emote_set_qrcode_data (emote_handle (s_display_data w)) d1]"
    using assms
    by (simp add: esp_event_post_def display_event_handler_def app_display_set_text_def
        change_emotion_visibility_def esp_event_handler_unregister_def do_call_def Let_def
        split: option.split)
  have h: "(APP_NETWORK_EVENT, APP_NETWORK_EVENT_QR_DISPLAY) \<notin> set (handlers ?w1)"
    using assms(2)
    by (simp add: esp_event_post_def display_event_handler_def esp_event_handler_unregister_def
        Let_def)
  have again: "esp_event_post P APP_NETWORK_EVENT APP_NETWORK_EVENT_QR_DISPLAY d2 ?w1 = ?w1"
    using h by (simp add: esp_event_post_def [of P _ _ d2])
  have f: "filter is_qrcode_data (calls ?w1) =
       filter is_qrcode_data (calls w) @
       [Emote_set_qrcode_data (emote_handle (s_display_data w)) d1]"
    unfolding c by (simp add: is_qrcode_data_def split: option.split)
  show ?thesis
    using c h again f by simp
qed

theorem qr_event_handled_once_witness:
  "initialized (s_display_data ready) \<and>
   (APP_NETWORK_EVENT, APP_NETWORK_EVENT_QR_DISPLAY) \<in> set (handlers ready) \<and>
   calls (esp_event_post board_ok APP_NETWORK_EVENT APP_NETWORK_EVENT_QR_DISPLAY (Some ''qr2'')
           (esp_event_post board_ok APP_NETWORK_EVENT APP_NETWORK_EVENT_QR_DISPLAY (Some ''qr1'')
              ready)) =
     calls ready @
       [Emote_set_event_msg (Some 4) EMOTE_MGR_EVT_SYS (Some ''Scan QR code with RainMaker''),
        Gfx_obj_set_visible (Some 6) False,
        Emote_set_qrcode_data (Some 4) (Some ''qr1'')]"
proof -
  have h: "initialized (s_display_data ready)"
    "(APP_NETWORK_EVENT, APP_NETWORK_EVENT_QR_DISPLAY) \<in> set (handlers ready)"
    by (simp_all add: ready_def)
  have e: "emote_handle (s_display_data ready) = Some 4"
    "emote_get_obj_by_name board_ok ''eye_anim'' = Some 6"
    by (simp_all add: ready_def board_ok_def)
  show ?thesis
    using h e qr_event_handled_once [OF h, of board_ok "Some ''qr1''" "Some ''qr2''"] by simp
qed

text \<open>
  C2. \<^verbatim>\<open>app_display_init\<close> registers \<^verbatim>\<open>display_event_handler\<close> for the QR-display
  event only. On the board where everything succeeds, initialisation from boot ends with
  that single registration and the status text "Initializing..."; a station-disconnected
  or station-connected event posted afterwards reaches no handler and leaves the world as
  it is. Run directly on those events, the handler would set the status text to
  "WiFi connecting..." and "WiFi connected", with the emotion idle.
\<close>

theorem wifi_events_not_subscribed:
  "app_display_init board_ok boot = (ESP_OK, ready) \<and>
   handlers ready = [(APP_NETWORK_EVENT, APP_NETWORK_EVENT_QR_DISPLAY)] \<and>
   status_text (calls ready) = Some ''Initializing...'' \<and>
   esp_event_post board_ok WIFI_EVENT WIFI_EVENT_STA_DISCONNECTED None ready = ready \<and>
   esp_event_post board_ok WIFI_EVENT WIFI_EVENT_STA_CONNECTED None ready = ready \<and>
   status_text (calls (display_event_handler board_ok WIFI_EVENT WIFI_EVENT_STA_DISCONNECTED
                         None ready)) = Some ''WiFi connecting...'' \<and>
   current_emotion (calls (display_event_handler board_ok WIFI_EVENT WIFI_EVENT_STA_DISCONNECTED
                         None ready)) = Some ''idle'' \<and>
   status_text (calls (display_event_handler board_ok WIFI_EVENT WIFI_EVENT_STA_CONNECTED
                         None ready)) = Some ''WiFi connected'' \<and>
   current_emotion (calls (display_event_handler board_ok WIFI_EVENT WIFI_EVENT_STA_CONNECTED
                         None ready)) = Some ''idle''"
proof -
  have a: "handlers ready = [(APP_NETWORK_EVENT, APP_NETWORK_EVENT_QR_DISPLAY)]"
    by (simp add: ready_def)
  have b: "status_text (calls ready) = Some ''Initializing...''"
    by (simp add: ready_def status_text_def)
  have c: "esp_event_post board_ok WIFI_EVENT eid None ready = ready" for eid
    by (simp add: esp_event_post_def a)
  have i: "initialized (s_display_data ready)"
    by (rule ready_initialized)
  have d: "calls (display_event_handler board_ok WIFI_EVENT WIFI_EVENT_STA_DISCONNECTED None ready)
      = calls ready @ [Emote_set_event_msg (Some 4) EMOTE_MGR_EVT_SYS (Some ''WiFi connecting...''),
                       Emote_set_anim_emoji (Some 4) DISP_EMOTE_IDLE]"
    by (simp add: display_event_handler_def app_display_set_text_def i set_emotion_idle
        do_call_def ready_def event_id_defs)
  have e: "calls (display_event_handler board_ok WIFI_EVENT WIFI_EVENT_STA_CONNECTED None ready)
      = calls ready @ [Emote_set_event_msg (Some 4) EMOTE_MGR_EVT_SYS (Some ''WiFi connected''),
                       Emote_set_anim_emoji (Some 4) DISP_EMOTE_IDLE]"
    by (simp add: display_event_handler_def app_display_set_text_def i set_emotion_idle
        do_call_def ready_def event_id_defs)
  show ?thesis
    unfolding d e
    using init_board_ok a b c
    by (simp add: ready_def status_text_def current_emotion_def DISP_EMOTE_defs)
qed

end
